theory Spec2Isabelle
  imports Main
begin

section \<open>The rule no-restricted-properties\<close>

text \<open>
  A shallow embedding of \<^verbatim>\<open>create(context)\<close> of
  \<^verbatim>\<open>lib/rules/no-restricted-properties.js\<close> (the revision that reports through
  \<^verbatim>\<open>fun\<close>, \<^verbatim>\<open>checkPropertyAccess\<close> and \<^verbatim>\<open>checkDestructuringAssignment\<close>).
  The only effect of the rule is \<^verbatim>\<open>context.report\<close>; every function that reports
  returns the list of its reports, in the order they are made.
\<close>

subsection \<open>Values and syntax-tree nodes\<close>

text \<open>
  The JavaScript values that serve as keys of the three \<^verbatim>\<open>Map\<close>s and as names in
  reports: a string, \<^verbatim>\<open>null\<close> or \<^verbatim>\<open>undefined\<close>. \<^verbatim>\<open>Map\<close> compares keys by
  SameValueZero, which on these values is equality.
\<close>

datatype jsval = Undefined | Null | Str string

text \<open>An absent field of an option object reads as \<^verbatim>\<open>undefined\<close>.\<close>

fun field :: "string option \<Rightarrow> jsval" where
  "field None = Undefined"
| "field (Some s) = Str s"

text \<open>
  A result of \<^verbatim>\<open>astUtils.getStaticPropertyName\<close> as a value: the name, or \<^verbatim>\<open>null\<close> when
  there is none.
\<close>

fun or_null :: "string option \<Rightarrow> jsval" where
  "or_null None = Null"
| "or_null (Some k) = Str k"

text \<open>
  A property of an object pattern. \<^verbatim>\<open>Property k\<close> carries the value of
  \<^verbatim>\<open>astUtils.getStaticPropertyName\<close> at that property (\<open>None\<close> is \<^verbatim>\<open>null\<close>, a key that
  is not statically known); a rest element has no key.
\<close>

datatype pattern_property = Property "string option" | RestElement

text \<open>
  The nodes the handlers read. \<^verbatim>\<open>MemberExpression obj name\<close> has the object \<open>obj\<close>
  and \<open>name\<close>, the value of \<^verbatim>\<open>astUtils.getStaticPropertyName(node)\<close> (\<open>None\<close> is
  \<^verbatim>\<open>null\<close>: a computed key that is not a literal). \<^verbatim>\<open>VariableDeclarator id init\<close>
  has \<^verbatim>\<open>init\<close> \<open>None\<close> when the declaration has no initialiser. \<open>Other\<close> is a node
  of any other type.
\<close>

datatype node =
    Identifier string
  | ObjectPattern "pattern_property list"
  | MemberExpression node "string option"
  | VariableDeclarator node "node option"
  | AssignmentExpression node node
  | AssignmentPattern node node
  | ArrowFunctionExpression "node list"
  | Other

fun type_of :: "node \<Rightarrow> string" where
  "type_of (Identifier n) = ''Identifier''"
| "type_of (ObjectPattern ps) = ''ObjectPattern''"
| "type_of (MemberExpression obj p) = ''MemberExpression''"
| "type_of (VariableDeclarator i e) = ''VariableDeclarator''"
| "type_of (AssignmentExpression l r) = ''AssignmentExpression''"
| "type_of (AssignmentPattern l r) = ''AssignmentPattern''"
| "type_of (ArrowFunctionExpression ps) = ''ArrowFunctionExpression''"
| "type_of Other = ''Other''"

text \<open>\<^verbatim>\<open>node.name\<close>: only an identifier has a name.\<close>

fun name_of :: "node \<Rightarrow> jsval" where
  "name_of (Identifier n) = Str n"
| "name_of _ = Undefined"

text \<open>
  Modelled from the spec: \<^verbatim>\<open>astUtils.getAllProperties\<close> (\<^verbatim>\<open>lib/rules/utils/ast-utils.js\<close>
  is missing). It gives the ordered sequence of the property names of an object pattern,
  each a string or unknown; a renamed or shorthand property contributes its key, a rest
  element contributes nothing.
\<close>

fun getAllProperties :: "pattern_property list \<Rightarrow> jsval list" where
  "getAllProperties [] = []"
| "getAllProperties (Property k # ps) = or_null k # getAllProperties ps"
| "getAllProperties (RestElement # ps) = getAllProperties ps"

subsection \<open>Options and the three maps\<close>

text \<open>One element of \<^verbatim>\<open>context.options\<close>; \<open>None\<close> is an absent field.\<close>

record rule_option =
  object :: "string option"
  property :: "string option"
  message :: "string option"

text \<open>The value \<^verbatim>\<open>{ message: option.message }\<close> stored in a map.\<close>

datatype entry = Entry (entry_message: "string option")

record restrictions =
  restrictedProperties :: "jsval \<rightharpoonup> (jsval \<rightharpoonup> entry)"
  globallyRestrictedObjects :: "jsval \<rightharpoonup> entry"
  globallyRestrictedProperties :: "jsval \<rightharpoonup> entry"

definition no_restrictions :: restrictions where
  "no_restrictions =
     \<lparr>restrictedProperties = Map.empty,
      globallyRestrictedObjects = Map.empty,
      globallyRestrictedProperties = Map.empty\<rparr>"

text \<open>The body of \<^verbatim>\<open>restrictedCalls.forEach(option => ...)\<close>.\<close>

definition add_option :: "restrictions \<Rightarrow> rule_option \<Rightarrow> restrictions" where
  "add_option R option =
     (let objectName = field (object option);
          propertyName = field (property option)
      in if objectName = Undefined then
           R\<lparr>globallyRestrictedProperties :=
                (globallyRestrictedProperties R)(propertyName \<mapsto> Entry (message option))\<rparr>
         else if propertyName = Undefined then
           R\<lparr>globallyRestrictedObjects :=
                (globallyRestrictedObjects R)(objectName \<mapsto> Entry (message option))\<rparr>
         else
           (let inner = (case restrictedProperties R objectName of
                           None \<Rightarrow> Map.empty
                         | Some m \<Rightarrow> m)
            in R\<lparr>restrictedProperties :=
                   (restrictedProperties R)
                     (objectName \<mapsto> inner(propertyName \<mapsto> Entry (message option)))\<rparr>))"

definition build :: "rule_option list \<Rightarrow> restrictions" where
  "build restrictedCalls = foldl add_option no_restrictions restrictedCalls"

subsection \<open>Matching and reporting\<close>

datatype message_id = restrictedObjectProperty | restrictedProperty

text \<open>
  One call of \<^verbatim>\<open>context.report\<close>. \<open>data_objectName\<close> is \<open>None\<close> when the data has
  no \<^verbatim>\<open>objectName\<close>.
\<close>

record report =
  node :: node
  messageId :: message_id
  data_objectName :: "jsval option"
  data_propertyName :: jsval
  data_message :: string

text \<open>An element \<^verbatim>\<open>{ name: x, ...mapName.get(x) }\<close> of the array that \<^verbatim>\<open>fun\<close> builds.\<close>

record matched =
  name :: jsval
  matched_message :: "string option"

text \<open>
  \<^verbatim>\<open>fun(mapName, propertyNames)\<close>: the entries of the names the map has, in the order
  of the names; \<open>None\<close> is \<^verbatim>\<open>undefined\<close>, returned when no name matched.
\<close>

fun matching :: "(jsval \<rightharpoonup> entry) \<Rightarrow> jsval list \<Rightarrow> matched list" where
  "matching mapName [] = []"
| "matching mapName (x # xs) =
     (case mapName x of
        Some e \<Rightarrow> \<lparr>name = x, matched_message = entry_message e\<rparr> # matching mapName xs
      | None \<Rightarrow> matching mapName xs)"

definition fun_js :: "(jsval \<rightharpoonup> entry) \<Rightarrow> jsval list \<Rightarrow> matched list option" where
  "fun_js mapName propertyNames =
     (let arr = matching mapName propertyNames
      in if length arr = 0 then None else Some arr)"

text \<open>\<^verbatim>\<open>m ? ` ${m}` : ""\<close>: \<^verbatim>\<open>undefined\<close> and the empty string are falsy.\<close>

fun suffix_of :: "string option \<Rightarrow> string" where
  "suffix_of None = ''''"
| "suffix_of (Some m) = (if m = '''' then '''' else CHR '' '' # m)"

text \<open>\<^verbatim>\<open>propertyName[0]\<close>, which is \<^verbatim>\<open>undefined\<close> on an empty array.\<close>

fun first_of :: "jsval list \<Rightarrow> jsval" where
  "first_of [] = Undefined"
| "first_of (x # xs) = x"

text \<open>
  The two constants \<^verbatim>\<open>matchedObjectProperty\<close> and \<^verbatim>\<open>globalMatchedProperty\<close> of
  \<^verbatim>\<open>checkPropertyAccess\<close>, as functions of the maps, the object name and the array of
  property names. Each is truthy (\<open>Some\<close>) exactly when its tier fires.
\<close>

definition matchedObjectProperty ::
  "restrictions \<Rightarrow> jsval \<Rightarrow> jsval list \<Rightarrow> matched list option" where
  "matchedObjectProperty R objectName names =
     (let matchedObject = restrictedProperties R objectName
      in case matchedObject of
           Some m \<Rightarrow> fun_js m names
         | None \<Rightarrow> None)"

definition globalMatchedProperty :: "restrictions \<Rightarrow> jsval list \<Rightarrow> matched list option" where
  "globalMatchedProperty R names = fun_js (globallyRestrictedProperties R) names"

text \<open>
  \<^verbatim>\<open>checkPropertyAccess(node, objectName, propertyName)\<close>. The third argument is
  \<^verbatim>\<open>null\<close> (\<open>None\<close>) or an array of names.
\<close>

definition checkPropertyAccess ::
  "restrictions \<Rightarrow> node \<Rightarrow> jsval \<Rightarrow> jsval list option \<Rightarrow> report list" where
  "checkPropertyAccess R n objectName propertyName =
     (case propertyName of
        None \<Rightarrow> []
      | Some names \<Rightarrow>
          (let globalMatchedObject = globallyRestrictedObjects R objectName
           in case matchedObjectProperty R objectName names of
                Some found \<Rightarrow>
                  map (\<lambda>props.
                         \<lparr>node = n, messageId = restrictedObjectProperty,
                          data_objectName = Some objectName,
                          data_propertyName = name props,
                          data_message = suffix_of (matched_message props)\<rparr>) found
              | None \<Rightarrow>
                  (case globalMatchedProperty R names of
                     Some found \<Rightarrow>
                       map (\<lambda>props.
                              \<lparr>node = n, messageId = restrictedProperty,
                               data_objectName = None,
                               data_propertyName = name props,
                               data_message = suffix_of (matched_message props)\<rparr>) found
                   | None \<Rightarrow>
                       (case globalMatchedObject of
                          Some e \<Rightarrow>
                            [\<lparr>node = n, messageId = restrictedObjectProperty,
                              data_objectName = Some objectName,
                              data_propertyName = first_of names,
                              data_message = suffix_of (entry_message e)\<rparr>]
                        | None \<Rightarrow> []))))"

text \<open>\<^verbatim>\<open>checkDestructuringAssignment(node)\<close>, on the left and right sides of the node.\<close>

fun checkDestructuringAssignment :: "restrictions \<Rightarrow> node \<Rightarrow> node \<Rightarrow> report list" where
  "checkDestructuringAssignment R (ObjectPattern properties) (Identifier objectName) =
     checkPropertyAccess R (ObjectPattern properties) (Str objectName)
       (Some (getAllProperties properties))"
| "checkDestructuringAssignment R left right = []"

text \<open>
  The handlers that \<^verbatim>\<open>create\<close> returns when there are options, each applied to a node
  of its own type. The handler of arrow functions reads the parameters and reports nothing.
\<close>

fun on_MemberExpression :: "restrictions \<Rightarrow> node \<Rightarrow> report list" where
  "on_MemberExpression R (MemberExpression obj p) =
     checkPropertyAccess R (MemberExpression obj p) (name_of obj)
       (Some [or_null p])"
| "on_MemberExpression R _ = []"

fun on_VariableDeclarator :: "restrictions \<Rightarrow> node \<Rightarrow> report list" where
  "on_VariableDeclarator R (VariableDeclarator (ObjectPattern properties) (Some (Identifier objectName))) =
     checkPropertyAccess R (ObjectPattern properties) (Str objectName)
       (Some (getAllProperties properties))"
| "on_VariableDeclarator R _ = []"

fun on_AssignmentExpression :: "restrictions \<Rightarrow> node \<Rightarrow> report list" where
  "on_AssignmentExpression R (AssignmentExpression left right) =
     checkDestructuringAssignment R left right"
| "on_AssignmentExpression R _ = []"

fun on_AssignmentPattern :: "restrictions \<Rightarrow> node \<Rightarrow> report list" where
  "on_AssignmentPattern R (AssignmentPattern left right) =
     checkDestructuringAssignment R left right"
| "on_AssignmentPattern R _ = []"

fun on_ArrowFunctionExpression :: "node \<Rightarrow> report list" where
  "on_ArrowFunctionExpression _ = []"

text \<open>
  \<^verbatim>\<open>create(context)\<close>: the handlers by node type; none when \<^verbatim>\<open>context.options\<close> is
  empty.
\<close>

definition create :: "rule_option list \<Rightarrow> (string \<rightharpoonup> (node \<Rightarrow> report list))" where
  "create restrictedCalls =
     (if length restrictedCalls = 0 then Map.empty
      else (let R = build restrictedCalls
            in [''MemberExpression'' \<mapsto> on_MemberExpression R,
                ''VariableDeclarator'' \<mapsto> on_VariableDeclarator R,
                ''AssignmentExpression'' \<mapsto> on_AssignmentExpression R,
                ''AssignmentPattern'' \<mapsto> on_AssignmentPattern R,
                ''ArrowFunctionExpression'' \<mapsto> on_ArrowFunctionExpression]))"

text \<open>
  Modelled from the spec: the host traversal (the linter is missing). It calls, at each
  node it visits, the callback registered for the node's type, if there is one; a run over
  a program is the reports of its nodes in the order of the visits.
\<close>

definition visit :: "(string \<rightharpoonup> (node \<Rightarrow> report list)) \<Rightarrow> node \<Rightarrow> report list" where
  "visit handlers n = (case handlers (type_of n) of None \<Rightarrow> [] | Some h \<Rightarrow> h n)"

definition lint :: "rule_option list \<Rightarrow> node list \<Rightarrow> report list" where
  "lint restrictedCalls program = concat (map (visit (create restrictedCalls)) program)"

subsection \<open>Notions used to state the properties\<close>

text \<open>
  The entry of a property name in the nested map of an object name,
  \<^verbatim>\<open>restrictedProperties.get(objectName)\<close> then \<^verbatim>\<open>.get(propertyName)\<close>; \<open>None\<close> when
  either lookup finds nothing.
\<close>

definition scoped_lookup :: "restrictions \<Rightarrow> jsval \<Rightarrow> jsval \<Rightarrow> entry option" where
  "scoped_lookup R objectName propertyName =
     (case restrictedProperties R objectName of
        None \<Rightarrow> None
      | Some m \<Rightarrow> m propertyName)"

text \<open>
  What the maps hold under the key of an option: the key is looked up in the map that
  \<^verbatim>\<open>forEach\<close> writes for an option of that shape.
\<close>

definition stored :: "restrictions \<Rightarrow> rule_option \<Rightarrow> entry option" where
  "stored R option =
     (if object option = None then
        globallyRestrictedProperties R (field (property option))
      else if property option = None then
        globallyRestrictedObjects R (field (object option))
      else scoped_lookup R (field (object option)) (field (property option)))"

section \<open>Properties\<close>

subsection \<open>The maps that \<open>build\<close> returns\<close>

lemma build_Nil: "build [] = no_restrictions"
  by (simp add: build_def)

lemma build_snoc: "build (es @ [e]) = add_option (build es) e"
  by (simp add: build_def)

lemma field_Undefined: "(field x = Undefined) = (x = None)"
  by (cases x) simp_all

lemma field_not_Null: "field x \<noteq> Null"
  by (cases x) simp_all

lemma field_eq: "(field x = field y) = (x = y)"
  by (cases x; cases y) simp_all

lemma or_null_not_Undefined: "or_null p \<noteq> Undefined"
  by (cases p) simp_all

text \<open>
  Each map holds, under a key, the message of the last option of the matching shape with
  that key; the options are read from the last one backwards.
\<close>

lemma globallyRestrictedProperties_build:
  "globallyRestrictedProperties (build es) k =
     map_option (\<lambda>e. Entry (message e))
       (find (\<lambda>e. object e = None \<and> field (property e) = k) (rev es))"
proof (induction es rule: rev_induct)
  case Nil
  show ?case by (simp add: build_Nil no_restrictions_def)
next
  case (snoc e es)
  then show ?case
    by (simp add: build_snoc add_option_def Let_def field_Undefined)
qed

lemma globallyRestrictedObjects_build:
  "globallyRestrictedObjects (build es) k =
     map_option (\<lambda>e. Entry (message e))
       (find (\<lambda>e. object e \<noteq> None \<and> property e = None \<and> field (object e) = k) (rev es))"
proof (induction es rule: rev_induct)
  case Nil
  show ?case by (simp add: build_Nil no_restrictions_def)
next
  case (snoc e es)
  then show ?case
    by (simp add: build_snoc add_option_def Let_def field_Undefined)
qed

lemma restrictedProperties_build_None:
  "(restrictedProperties (build es) ko = None) =
     (\<forall>e\<in>set es. \<not> (object e \<noteq> None \<and> property e \<noteq> None \<and> field (object e) = ko))"
proof (induction es rule: rev_induct)
  case Nil
  show ?case by (simp add: build_Nil no_restrictions_def)
next
  case (snoc e es)
  then show ?case
    by (auto simp add: build_snoc add_option_def Let_def field_Undefined)
qed

lemma scoped_lookup_build:
  "scoped_lookup (build es) ko kp =
     map_option (\<lambda>e. Entry (message e))
       (find (\<lambda>e. object e \<noteq> None \<and> property e \<noteq> None \<and>
                   field (object e) = ko \<and> field (property e) = kp) (rev es))"
  unfolding scoped_lookup_def
proof (induction es rule: rev_induct)
  case Nil
  show ?case by (simp add: build_Nil no_restrictions_def)
next
  case (snoc e es)
  then show ?case
    by (auto simp add: build_snoc add_option_def Let_def field_Undefined split: option.splits)
qed

lemma restrictedProperties_build_Undefined: "restrictedProperties (build opts) Undefined = None"
  by (auto simp add: restrictedProperties_build_None field_Undefined)

lemma globallyRestrictedObjects_build_Undefined:
  "globallyRestrictedObjects (build opts) Undefined = None"
  by (auto simp add: globallyRestrictedObjects_build find_None_iff field_Undefined)

lemma globallyRestrictedProperties_build_Null:
  "globallyRestrictedProperties (build opts) Null = None"
  by (simp add: globallyRestrictedProperties_build find_None_iff field_not_Null)

lemma scoped_lookup_build_Null: "scoped_lookup (build opts) obj Null = None"
  by (simp add: scoped_lookup_build find_None_iff field_not_Null)

lemma scoped_lookup_build_member:
  assumes "s \<in> set opts" and "object s = Some obj" and "property s = Some p"
  shows "scoped_lookup (build opts) (Str obj) (Str p) \<noteq> None"
proof -
  have "find (\<lambda>e. object e \<noteq> None \<and> property e \<noteq> None \<and>
                  field (object e) = Str obj \<and> field (property e) = Str p) (rev opts) \<noteq> None"
    unfolding find_None_iff using assms by fastforce
  then show ?thesis
    by (simp add: scoped_lookup_build)
qed

lemma globallyRestrictedProperties_build_member:
  assumes "g \<in> set opts" and "object g = None" and "property g = Some p"
  shows "globallyRestrictedProperties (build opts) (Str p) \<noteq> None"
proof -
  have "find (\<lambda>e. object e = None \<and> field (property e) = Str p) (rev opts) \<noteq> None"
    unfolding find_None_iff using assms by fastforce
  then show ?thesis
    by (simp add: globallyRestrictedProperties_build)
qed

lemma globallyRestrictedObjects_build_member:
  assumes "e \<in> set opts" and "object e = Some obj" and "property e = None"
  shows "globallyRestrictedObjects (build opts) (Str obj) \<noteq> None"
proof -
  have "find (\<lambda>e. object e \<noteq> None \<and> property e = None \<and> field (object e) = Str obj)
          (rev opts) \<noteq> None"
    unfolding find_None_iff using assms by fastforce
  then show ?thesis
    by (simp add: globallyRestrictedObjects_build)
qed

lemma find_app:
  "find P (xs @ ys) = (case find P xs of None \<Rightarrow> find P ys | Some x \<Rightarrow> Some x)"
  by (induction xs) simp_all

lemma find_last:
  assumes "P e" and "\<forall>x\<in>set post. \<not> P x"
  shows "find P (rev (pre @ e # post)) = Some e"
proof -
  have "find P (rev post) = None"
    using assms(2) by (simp add: find_None_iff)
  then show ?thesis
    using assms(1) by (simp add: find_app)
qed

lemma stored_last:
  assumes "\<forall>x\<in>set post. \<not> (object x = object e \<and> property x = property e)"
  shows "stored (build (pre @ e # post)) e = Some (Entry (message e))"
proof -
  consider (gp) "object e = None"
    | (go) "object e \<noteq> None" "property e = None"
    | (sc) "object e \<noteq> None" "property e \<noteq> None"
    by blast
  then show ?thesis
  proof cases
    case gp
    have "find (\<lambda>x. object x = None \<and> field (property x) = field (property e))
            (rev (pre @ e # post)) = Some e"
      using gp assms by (intro find_last) (auto simp add: field_eq)
    then show ?thesis
      using gp by (auto simp add: stored_def globallyRestrictedProperties_build)
  next
    case go
    have "find (\<lambda>x. object x \<noteq> None \<and> property x = None \<and> field (object x) = field (object e))
            (rev (pre @ e # post)) = Some e"
      using go assms by (intro find_last) (auto simp add: field_eq)
    then show ?thesis
      using go by (auto simp add: stored_def globallyRestrictedObjects_build)
  next
    case sc
    have "find (\<lambda>x. object x \<noteq> None \<and> property x \<noteq> None \<and>
                    field (object x) = field (object e) \<and>
                    field (property x) = field (property e))
            (rev (pre @ e # post)) = Some e"
      using sc assms by (intro find_last) (auto simp add: field_eq)
    then show ?thesis
      using sc by (auto simp add: stored_def scoped_lookup_build)
  qed
qed

subsection \<open>The three tiers of \<open>checkPropertyAccess\<close>\<close>

lemma matching_filter:
  "matching m xs =
     map (\<lambda>x. \<lparr>name = x, matched_message = entry_message (the (m x))\<rparr>)
       (filter (\<lambda>x. m x \<noteq> None) xs)"
  by (induction xs) (auto split: option.splits)

lemma fun_js_None: "(fun_js m xs = None) = (\<forall>x\<in>set xs. m x = None)"
  by (auto simp add: fun_js_def Let_def matching_filter filter_empty_conv)

lemma fun_js_cases: "fun_js m xs = None \<or> fun_js m xs = Some (matching m xs)"
  by (simp add: fun_js_def Let_def)

lemma matchedObjectProperty_None:
  "(matchedObjectProperty R obj names = None) =
     (\<forall>x\<in>set names. scoped_lookup R obj x = None)"
  by (cases "restrictedProperties R obj")
     (simp_all add: matchedObjectProperty_def scoped_lookup_def fun_js_None)

lemma globalMatchedProperty_None:
  "(globalMatchedProperty R names = None) =
     (\<forall>x\<in>set names. globallyRestrictedProperties R x = None)"
  by (simp add: globalMatchedProperty_def fun_js_None)

lemma matchedObjectProperty_Some:
  assumes "matchedObjectProperty R obj names \<noteq> None"
  shows "matchedObjectProperty R obj names = Some (matching (scoped_lookup R obj) names)"
proof (cases "restrictedProperties R obj")
  case None
  with assms show ?thesis by (simp add: matchedObjectProperty_def)
next
  case (Some m)
  then have l: "scoped_lookup R obj = m"
    by (simp add: scoped_lookup_def fun_eq_iff)
  from Some have "matchedObjectProperty R obj names = fun_js m names"
    by (simp add: matchedObjectProperty_def)
  with assms fun_js_cases [of m names] show ?thesis
    unfolding l by auto
qed

lemma globalMatchedProperty_Some:
  assumes "globalMatchedProperty R names \<noteq> None"
  shows "globalMatchedProperty R names = Some (matching (globallyRestrictedProperties R) names)"
  using assms fun_js_cases [of "globallyRestrictedProperties R" names]
  by (auto simp add: globalMatchedProperty_def)

lemma checkPropertyAccess_scoped:
  assumes "matchedObjectProperty R obj names \<noteq> None"
  shows "checkPropertyAccess R n obj (Some names) =
           map (\<lambda>x. \<lparr>node = n, messageId = restrictedObjectProperty,
                      data_objectName = Some obj, data_propertyName = x,
                      data_message = suffix_of (entry_message (the (scoped_lookup R obj x)))\<rparr>)
             (filter (\<lambda>x. scoped_lookup R obj x \<noteq> None) names)"
  by (simp add: checkPropertyAccess_def Let_def matchedObjectProperty_Some [OF assms]
      matching_filter comp_def)

lemma checkPropertyAccess_global_property:
  assumes "matchedObjectProperty R obj names = None"
    and "globalMatchedProperty R names \<noteq> None"
  shows "checkPropertyAccess R n obj (Some names) =
           map (\<lambda>x. \<lparr>node = n, messageId = restrictedProperty,
                      data_objectName = None, data_propertyName = x,
                      data_message =
                        suffix_of (entry_message (the (globallyRestrictedProperties R x)))\<rparr>)
             (filter (\<lambda>x. globallyRestrictedProperties R x \<noteq> None) names)"
  by (simp add: checkPropertyAccess_def Let_def assms(1)
      globalMatchedProperty_Some [OF assms(2)] matching_filter comp_def)

lemma checkPropertyAccess_global_object:
  assumes "matchedObjectProperty R obj names = None"
    and "globalMatchedProperty R names = None"
  shows "checkPropertyAccess R n obj (Some names) =
           (case globallyRestrictedObjects R obj of
              None \<Rightarrow> []
            | Some e \<Rightarrow>
                [\<lparr>node = n, messageId = restrictedObjectProperty,
                  data_objectName = Some obj, data_propertyName = first_of names,
                  data_message = suffix_of (entry_message e)\<rparr>])"
  by (simp add: checkPropertyAccess_def Let_def assms)

lemma checkPropertyAccess_no_restrictions:
  "checkPropertyAccess no_restrictions n obj names = []"
  by (cases names)
     (simp_all add: checkPropertyAccess_def Let_def no_restrictions_def fun_js_def
        matchedObjectProperty_def globalMatchedProperty_def matching_filter)

text \<open>Where a report comes from: one of the three tiers, with the message of its entry.\<close>

lemma report_origin:
  assumes "r \<in> set (checkPropertyAccess R n obj names)"
  shows "(messageId r = restrictedObjectProperty \<and> data_objectName r = Some obj \<and>
          (\<exists>e. scoped_lookup R obj (data_propertyName r) = Some e \<and>
               data_message r = suffix_of (entry_message e)))
       \<or> (messageId r = restrictedProperty \<and> data_objectName r = None \<and>
          (\<exists>e. globallyRestrictedProperties R (data_propertyName r) = Some e \<and>
               data_message r = suffix_of (entry_message e)))
       \<or> (messageId r = restrictedObjectProperty \<and> data_objectName r = Some obj \<and>
          (\<exists>names'. names = Some names' \<and> matchedObjectProperty R obj names' = None \<and>
                     data_propertyName r = first_of names') \<and>
          (\<exists>e. globallyRestrictedObjects R obj = Some e \<and>
               data_message r = suffix_of (entry_message e)))"
proof (cases names)
  case None
  with assms show ?thesis by (simp add: checkPropertyAccess_def)
next
  case (Some names')
  show ?thesis
  proof (cases "matchedObjectProperty R obj names' = None")
    case False
    from assms show ?thesis
      unfolding Some checkPropertyAccess_scoped [OF False]
      by auto
  next
    case s: True
    show ?thesis
    proof (cases "globalMatchedProperty R names' = None")
      case False
      from assms show ?thesis
        unfolding Some checkPropertyAccess_global_property [OF s False]
        by auto
    next
      case g: True
      show ?thesis
      proof (cases "globallyRestrictedObjects R obj")
        case None
        with assms show ?thesis
          unfolding Some checkPropertyAccess_global_object [OF s g] by simp
      next
        case e: (Some e)
        with assms have "r = \<lparr>node = n, messageId = restrictedObjectProperty,
                                data_objectName = Some obj, data_propertyName = first_of names',
                                data_message = suffix_of (entry_message e)\<rparr>"
          unfolding Some checkPropertyAccess_global_object [OF s g] by simp
        with s e Some show ?thesis by simp
      qed
    qed
  qed
qed

subsection \<open>What the host gets at a node\<close>

lemma visit_MemberExpression:
  "visit (create opts) (MemberExpression obj p) =
     checkPropertyAccess (build opts) (MemberExpression obj p) (name_of obj)
       (Some [or_null p])"
  by (cases opts)
     (simp_all add: visit_def create_def Let_def build_Nil checkPropertyAccess_no_restrictions)

text \<open>
  A computed access, whose name is \<^verbatim>\<open>null\<close>, matches no property in any map; it is
  reported exactly when the name of its object is in \<^verbatim>\<open>globallyRestrictedObjects\<close>.
\<close>

lemma computed_access_reports:
  "visit (create opts) (MemberExpression obj None) =
     (case globallyRestrictedObjects (build opts) (name_of obj) of
        None \<Rightarrow> []
      | Some e \<Rightarrow>
          [\<lparr>node = MemberExpression obj None, messageId = restrictedObjectProperty,
            data_objectName = Some (name_of obj), data_propertyName = Null,
            data_message = suffix_of (entry_message e)\<rparr>])"
proof -
  have s: "matchedObjectProperty (build opts) (name_of obj) [Null] = None"
    by (simp add: matchedObjectProperty_None scoped_lookup_build_Null)
  have g: "globalMatchedProperty (build opts) [Null] = None"
    by (simp add: globalMatchedProperty_None globallyRestrictedProperties_build_Null)
  show ?thesis
    unfolding visit_MemberExpression or_null.simps checkPropertyAccess_global_object [OF s g]
    by (simp split: option.splits)
qed

subsection \<open>The claims\<close>

text \<open>
  C1. The claim is that a member access with a computed key, one with no statically known
  name, gets no report under any options, also when an option restricts the whole object.
  The guard \<^verbatim>\<open>propertyName === null\<close> of \<^verbatim>\<open>checkPropertyAccess\<close> is meant for such an
  access, but the handler of member expressions passes the one-element array \<^verbatim>\<open>[null]\<close>,
  so the guard never holds: with the option \<^verbatim>\<open>{object: "foo"}\<close>, the access \<^verbatim>\<open>foo[bar]\<close>
  is reported once, as \<^verbatim>\<open>restrictedObjectProperty\<close> with the property name \<^verbatim>\<open>null\<close>.
\<close>

theorem computed_access_on_restricted_object:
  "visit (create [\<lparr>object = Some ''foo'', property = None, message = None\<rparr>])
         (MemberExpression (Identifier ''foo'') None)
   = [\<lparr>node = MemberExpression (Identifier ''foo'') None,
       messageId = restrictedObjectProperty,
       data_objectName = Some (Str ''foo''),
       data_propertyName = Null,
       data_message = ''''\<rparr>]"
  by (simp add: visit_def create_def build_def add_option_def no_restrictions_def
      checkPropertyAccess_def matchedObjectProperty_def globalMatchedProperty_def
      fun_js_def Let_def)

text \<open>
  C2, as stated: a member access whose object is not an identifier gets no report under
  any options. It fails: with the option \<^verbatim>\<open>{property: "bar"}\<close>, an access to \<^verbatim>\<open>bar\<close> on an
  object that is not an identifier is reported as \<^verbatim>\<open>restrictedProperty\<close>.
\<close>

theorem non_identifier_object_counterexample:
  "visit (create [\<lparr>object = None, property = Some ''bar'', message = None\<rparr>])
         (MemberExpression Other (Some ''bar''))
   = [\<lparr>node = MemberExpression Other (Some ''bar''),
       messageId = restrictedProperty,
       data_objectName = None,
       data_propertyName = Str ''bar'',
       data_message = ''''\<rparr>]"
  by (simp add: visit_def create_def build_def add_option_def no_restrictions_def
      checkPropertyAccess_def matchedObjectProperty_def globalMatchedProperty_def
      fun_js_def Let_def)

text \<open>
  C2, amended: a member access whose object is not an identifier gets no
  \<^verbatim>\<open>restrictedObjectProperty\<close> report under any options; it gets exactly one
  \<^verbatim>\<open>restrictedProperty\<close> report, with the message of the entry, when its static property
  name is a key of \<^verbatim>\<open>globallyRestrictedProperties\<close>, and no report otherwise.
\<close>

theorem non_identifier_object_reports:
  assumes "name_of obj = Undefined"
  shows "visit (create opts) (MemberExpression obj p) =
           (case globallyRestrictedProperties (build opts) (or_null p) of
              None \<Rightarrow> []
            | Some e \<Rightarrow>
                [\<lparr>node = MemberExpression obj p, messageId = restrictedProperty,
                  data_objectName = None, data_propertyName = or_null p,
                  data_message = suffix_of (entry_message e)\<rparr>])"
proof -
  have s: "matchedObjectProperty (build opts) (name_of obj) [or_null p] = None"
    using assms
    by (simp add: matchedObjectProperty_def restrictedProperties_build_Undefined)
  show ?thesis
  proof (cases "globallyRestrictedProperties (build opts) (or_null p)")
    case None
    then have g: "globalMatchedProperty (build opts) [or_null p] = None"
      by (simp add: globalMatchedProperty_None)
    show ?thesis
      unfolding visit_MemberExpression checkPropertyAccess_global_object [OF s g]
      using assms None by (simp add: globallyRestrictedObjects_build_Undefined)
  next
    case (Some e)
    then have g: "globalMatchedProperty (build opts) [or_null p] \<noteq> None"
      by (simp add: globalMatchedProperty_None)
    show ?thesis
      unfolding visit_MemberExpression checkPropertyAccess_global_property [OF s g]
      using Some by simp
  qed
qed

theorem non_identifier_object_reports_witness:
  "name_of Other = Undefined \<and>
   visit (create [\<lparr>object = Some ''foo'', property = None, message = None\<rparr>,
                  \<lparr>object = None, property = Some ''bar'', message = Some ''No.''\<rparr>])
         (MemberExpression Other (Some ''bar''))
   = [\<lparr>node = MemberExpression Other (Some ''bar''),
       messageId = restrictedProperty,
       data_objectName = None,
       data_propertyName = Str ''bar'',
       data_message = '' No.''\<rparr>]"
  using non_identifier_object_reports
    [of Other "[\<lparr>object = Some ''foo'', property = None, message = None\<rparr>,
                \<lparr>object = None, property = Some ''bar'', message = Some ''No.''\<rparr>]"
        "Some ''bar''"]
  by (simp add: build_def add_option_def no_restrictions_def Let_def)

text \<open>
  C3. When the options hold a restriction on the pair of object \<open>obj\<close> and property \<open>p\<close>
  and a restriction on the property \<open>p\<close> alone, an access to names of \<open>obj\<close> among which
  is \<open>p\<close> is reported by the scoped tier only, although \<open>p\<close> is a key of
  \<^verbatim>\<open>globallyRestrictedProperties\<close>: the reports are those of the names found in the
  nested map of \<open>obj\<close>, \<open>p\<close> among them, and each is a \<^verbatim>\<open>restrictedObjectProperty\<close>
  report of a name of that map.
\<close>

theorem scoped_takes_precedence:
  assumes "s \<in> set opts" and "object s = Some obj" and "property s = Some p"
    and "g \<in> set opts" and "object g = None" and "property g = Some p"
    and "Str p \<in> set names"
  shows "globallyRestrictedProperties (build opts) (Str p) \<noteq> None \<and>
         checkPropertyAccess (build opts) n (Str obj) (Some names) =
           map (\<lambda>x. \<lparr>node = n, messageId = restrictedObjectProperty,
                      data_objectName = Some (Str obj), data_propertyName = x,
                      data_message =
                        suffix_of (entry_message (the (scoped_lookup (build opts) (Str obj) x)))\<rparr>)
             (filter (\<lambda>x. scoped_lookup (build opts) (Str obj) x \<noteq> None) names) \<and>
         Str p \<in> set (filter (\<lambda>x. scoped_lookup (build opts) (Str obj) x \<noteq> None) names) \<and>
         (\<forall>r\<in>set (checkPropertyAccess (build opts) n (Str obj) (Some names)).
            messageId r = restrictedObjectProperty \<and>
            scoped_lookup (build opts) (Str obj) (data_propertyName r) \<noteq> None)"
proof -
  have l: "scoped_lookup (build opts) (Str obj) (Str p) \<noteq> None"
    using assms(1-3) by (rule scoped_lookup_build_member)
  with assms(7) have m: "matchedObjectProperty (build opts) (Str obj) names \<noteq> None"
    unfolding matchedObjectProperty_None by auto
  have gp: "globallyRestrictedProperties (build opts) (Str p) \<noteq> None"
    using assms(4-6) by (rule globallyRestrictedProperties_build_member)
  have mem: "Str p \<in> set (filter (\<lambda>x. scoped_lookup (build opts) (Str obj) x \<noteq> None) names)"
    using l assms(7) by simp
  have all: "\<forall>r\<in>set (checkPropertyAccess (build opts) n (Str obj) (Some names)).
            messageId r = restrictedObjectProperty \<and>
            scoped_lookup (build opts) (Str obj) (data_propertyName r) \<noteq> None"
    unfolding checkPropertyAccess_scoped [OF m] by auto
  show ?thesis
    using gp mem all checkPropertyAccess_scoped [OF m, of n] by blast
qed

theorem scoped_takes_precedence_witness:
  "checkPropertyAccess
     (build [\<lparr>object = None, property = Some ''a'', message = Some ''global''\<rparr>,
             \<lparr>object = Some ''foo'', property = Some ''a'', message = Some ''scoped''\<rparr>,
             \<lparr>object = Some ''foo'', property = None, message = None\<rparr>])
     Other (Str ''foo'') (Some [Str ''b'', Str ''a''])
   = [\<lparr>node = Other, messageId = restrictedObjectProperty,
       data_objectName = Some (Str ''foo''), data_propertyName = Str ''a'',
       data_message = '' scoped''\<rparr>]"
  using scoped_takes_precedence
    [of "\<lparr>object = Some ''foo'', property = Some ''a'', message = Some ''scoped''\<rparr>"
        "[\<lparr>object = None, property = Some ''a'', message = Some ''global''\<rparr>,
          \<lparr>object = Some ''foo'', property = Some ''a'', message = Some ''scoped''\<rparr>,
          \<lparr>object = Some ''foo'', property = None, message = None\<rparr>]"
        "''foo''" "''a''"
        "\<lparr>object = None, property = Some ''a'', message = Some ''global''\<rparr>"
        "[Str ''b'', Str ''a'']" Other]
  by (simp add: build_def add_option_def no_restrictions_def Let_def scoped_lookup_def)

text \<open>
  C4. When an option with \<^verbatim>\<open>object\<close> alone restricts the object \<open>obj\<close>, an access to names
  of \<open>obj\<close> for which neither the scoped tier nor the global-property tier fires gets
  exactly one report, whatever the names and however many: \<^verbatim>\<open>restrictedObjectProperty\<close>,
  with the message of the entry of \<open>obj\<close> and with \<^verbatim>\<open>propertyName[0]\<close> as the property
  name, the first of the names when there is one.
\<close>

theorem global_object_single_report:
  assumes "e \<in> set opts" and "object e = Some obj" and "property e = None"
    and "matchedObjectProperty (build opts) (Str obj) names = None"
    and "globalMatchedProperty (build opts) names = None"
  shows "globallyRestrictedObjects (build opts) (Str obj) \<noteq> None \<and>
         checkPropertyAccess (build opts) n (Str obj) (Some names) =
           [\<lparr>node = n, messageId = restrictedObjectProperty,
             data_objectName = Some (Str obj), data_propertyName = first_of names,
             data_message =
               suffix_of (entry_message
                 (the (globallyRestrictedObjects (build opts) (Str obj))))\<rparr>] \<and>
         (\<forall>x xs. names = x # xs \<longrightarrow> first_of names = x)"
proof -
  have "globallyRestrictedObjects (build opts) (Str obj) \<noteq> None"
    using assms(1-3) by (rule globallyRestrictedObjects_build_member)
  then show ?thesis
    unfolding checkPropertyAccess_global_object [OF assms(4,5)] by auto
qed

theorem global_object_single_report_witness:
  "checkPropertyAccess
     (build [\<lparr>object = Some ''foo'', property = None, message = Some ''Do not use foo.''\<rparr>,
             \<lparr>object = Some ''foo'', property = Some ''z'', message = None\<rparr>,
             \<lparr>object = None, property = Some ''y'', message = None\<rparr>])
     Other (Str ''foo'') (Some [Str ''a'', Str ''b'', Str ''c''])
   = [\<lparr>node = Other, messageId = restrictedObjectProperty,
       data_objectName = Some (Str ''foo''), data_propertyName = Str ''a'',
       data_message = '' Do not use foo.''\<rparr>]"
  using global_object_single_report
    [of "\<lparr>object = Some ''foo'', property = None, message = Some ''Do not use foo.''\<rparr>"
        "[\<lparr>object = Some ''foo'', property = None, message = Some ''Do not use foo.''\<rparr>,
          \<lparr>object = Some ''foo'', property = Some ''z'', message = None\<rparr>,
          \<lparr>object = None, property = Some ''y'', message = None\<rparr>]"
        "''foo''" "[Str ''a'', Str ''b'', Str ''c'']" Other]
  by (simp add: build_def add_option_def no_restrictions_def Let_def
      matchedObjectProperty_def globalMatchedProperty_def fun_js_def)

text \<open>
  C5. With the single option that restricts the property \<open>a\<close> of the object \<open>obj\<close>, each
  of \<^verbatim>\<open>const { a } = obj;\<close>, \<^verbatim>\<open>({ a } = obj);\<close> and \<^verbatim>\<open>obj.a\<close> gets exactly one report,
  \<^verbatim>\<open>restrictedObjectProperty\<close> with the property name \<open>a\<close>. Each program is the list of
  its nodes in the order of the traversal: the program, its statement, then the
  declarator or the assignment with its pattern, the property of the pattern and the two
  identifiers, or the member expression with its two identifiers.
\<close>

theorem destructuring_equivalence:
  "lint [\<lparr>object = Some obj, property = Some a, message = m\<rparr>]
     [Other, Other,
      VariableDeclarator (ObjectPattern [Property (Some a)]) (Some (Identifier obj)),
      ObjectPattern [Property (Some a)], Other, Identifier a, Identifier obj]
   = [\<lparr>node = ObjectPattern [Property (Some a)], messageId = restrictedObjectProperty,
       data_objectName = Some (Str obj), data_propertyName = Str a,
       data_message = suffix_of m\<rparr>] \<and>
   lint [\<lparr>object = Some obj, property = Some a, message = m\<rparr>]
     [Other, Other,
      AssignmentExpression (ObjectPattern [Property (Some a)]) (Identifier obj),
      ObjectPattern [Property (Some a)], Other, Identifier a, Identifier obj]
   = [\<lparr>node = ObjectPattern [Property (Some a)], messageId = restrictedObjectProperty,
       data_objectName = Some (Str obj), data_propertyName = Str a,
       data_message = suffix_of m\<rparr>] \<and>
   lint [\<lparr>object = Some obj, property = Some a, message = m\<rparr>]
     [Other, Other,
      MemberExpression (Identifier obj) (Some a), Identifier obj, Identifier a]
   = [\<lparr>node = MemberExpression (Identifier obj) (Some a), messageId = restrictedObjectProperty,
       data_objectName = Some (Str obj), data_propertyName = Str a,
       data_message = suffix_of m\<rparr>]"
  by (simp add: lint_def visit_def create_def build_def add_option_def no_restrictions_def
      checkPropertyAccess_def matchedObjectProperty_def globalMatchedProperty_def
      fun_js_def Let_def)

text \<open>
  C6. When the scoped tier does not fire at an access and some of its names are keys of
  \<^verbatim>\<open>globallyRestrictedProperties\<close>, the reports are one \<^verbatim>\<open>restrictedProperty\<close> report for
  each name that is a key, all of them and in the order of the names, each with the
  message of its entry. The handlers of destructuring pass the names of the pattern.
\<close>

theorem global_property_all_reported:
  assumes "matchedObjectProperty (build opts) obj names = None"
    and "globalMatchedProperty (build opts) names \<noteq> None"
  shows "checkPropertyAccess (build opts) n obj (Some names) =
           map (\<lambda>x. \<lparr>node = n, messageId = restrictedProperty,
                      data_objectName = None, data_propertyName = x,
                      data_message =
                        suffix_of (entry_message
                          (the (globallyRestrictedProperties (build opts) x)))\<rparr>)
             (filter (\<lambda>x. globallyRestrictedProperties (build opts) x \<noteq> None) names)"
  using assms by (rule checkPropertyAccess_global_property)

theorem global_property_all_reported_witness:
  "checkPropertyAccess
     (build [\<lparr>object = None, property = Some ''a'', message = Some ''No a.''\<rparr>,
             \<lparr>object = None, property = Some ''c'', message = None\<rparr>,
             \<lparr>object = Some ''foo'', property = None, message = None\<rparr>])
     Other (Str ''foo'') (Some [Str ''c'', Str ''b'', Str ''a'', Str ''c''])
   = [\<lparr>node = Other, messageId = restrictedProperty, data_objectName = None,
       data_propertyName = Str ''c'', data_message = ''''\<rparr>,
      \<lparr>node = Other, messageId = restrictedProperty, data_objectName = None,
       data_propertyName = Str ''a'', data_message = '' No a.''\<rparr>,
      \<lparr>node = Other, messageId = restrictedProperty, data_objectName = None,
       data_propertyName = Str ''c'', data_message = ''''\<rparr>]"
  using global_property_all_reported
    [of "[\<lparr>object = None, property = Some ''a'', message = Some ''No a.''\<rparr>,
          \<lparr>object = None, property = Some ''c'', message = None\<rparr>,
          \<lparr>object = Some ''foo'', property = None, message = None\<rparr>]"
        "Str ''foo''" "[Str ''c'', Str ''b'', Str ''a'', Str ''c'']" Other]
  by (simp add: build_def add_option_def no_restrictions_def Let_def
      matchedObjectProperty_def globalMatchedProperty_def fun_js_def)

text \<open>
  C7. \<open>build\<close> is total, and it puts each option in exactly one of the three maps,
  chosen by which of \<^verbatim>\<open>object\<close> and \<^verbatim>\<open>property\<close> is absent. Under a key,
  \<^verbatim>\<open>globallyRestrictedProperties\<close> holds the message of the last option with no \<^verbatim>\<open>object\<close>
  and that \<^verbatim>\<open>property\<close>; \<^verbatim>\<open>globallyRestrictedObjects\<close> holds the message of the last
  option with that \<^verbatim>\<open>object\<close> and no \<^verbatim>\<open>property\<close>; the nested map of an object name
  holds the message of the last option with that \<^verbatim>\<open>object\<close> and that \<^verbatim>\<open>property\<close>, and
  an object name has a nested map exactly when some option has it with a \<^verbatim>\<open>property\<close>.
  The three conditions exclude one another, and nothing else is in the maps.
\<close>

theorem build_partitions:
  "globallyRestrictedProperties (build opts) k =
     map_option (\<lambda>e. Entry (message e))
       (find (\<lambda>e. object e = None \<and> field (property e) = k) (rev opts)) \<and>
   globallyRestrictedObjects (build opts) k =
     map_option (\<lambda>e. Entry (message e))
       (find (\<lambda>e. object e \<noteq> None \<and> property e = None \<and> field (object e) = k) (rev opts)) \<and>
   scoped_lookup (build opts) k k' =
     map_option (\<lambda>e. Entry (message e))
       (find (\<lambda>e. object e \<noteq> None \<and> property e \<noteq> None \<and>
                   field (object e) = k \<and> field (property e) = k') (rev opts)) \<and>
   (restrictedProperties (build opts) k = None) =
     (\<forall>e\<in>set opts. \<not> (object e \<noteq> None \<and> property e \<noteq> None \<and> field (object e) = k))"
  by (simp only: globallyRestrictedProperties_build globallyRestrictedObjects_build
      restrictedProperties_build_None scoped_lookup_build simp_thms)

theorem build_partitions_witness:
  "globallyRestrictedProperties
     (build [\<lparr>object = None, property = Some ''a'', message = Some ''x''\<rparr>,
             \<lparr>object = Some ''foo'', property = None, message = None\<rparr>,
             \<lparr>object = Some ''foo'', property = Some ''b'', message = Some ''y''\<rparr>]) (Str ''foo'')
     = None \<and>
   globallyRestrictedObjects
     (build [\<lparr>object = None, property = Some ''a'', message = Some ''x''\<rparr>,
             \<lparr>object = Some ''foo'', property = None, message = None\<rparr>,
             \<lparr>object = Some ''foo'', property = Some ''b'', message = Some ''y''\<rparr>]) (Str ''foo'')
     = Some (Entry None) \<and>
   scoped_lookup
     (build [\<lparr>object = None, property = Some ''a'', message = Some ''x''\<rparr>,
             \<lparr>object = Some ''foo'', property = None, message = None\<rparr>,
             \<lparr>object = Some ''foo'', property = Some ''b'', message = Some ''y''\<rparr>]) (Str ''foo'')
     (Str ''b'') = Some (Entry (Some ''y''))"
  using build_partitions
    [of "[\<lparr>object = None, property = Some ''a'', message = Some ''x''\<rparr>,
          \<lparr>object = Some ''foo'', property = None, message = None\<rparr>,
          \<lparr>object = Some ''foo'', property = Some ''b'', message = Some ''y''\<rparr>]"
        "Str ''foo''" "Str ''b''"]
  by simp

text \<open>
  C8. With the single option \<^verbatim>\<open>{object: "foo", property: "bar", message: "Use baz instead."}\<close>,
  the member access \<^verbatim>\<open>foo.bar\<close> gets exactly one report: \<^verbatim>\<open>restrictedObjectProperty\<close>
  with object name \<^verbatim>\<open>foo\<close>, property name \<^verbatim>\<open>bar\<close> and the message preceded by one space.
\<close>

theorem foo_bar_example:
  "visit (create [\<lparr>object = Some ''foo'', property = Some ''bar'',
                   message = Some ''Use baz instead.''\<rparr>])
         (MemberExpression (Identifier ''foo'') (Some ''bar''))
   = [\<lparr>node = MemberExpression (Identifier ''foo'') (Some ''bar''),
       messageId = restrictedObjectProperty,
       data_objectName = Some (Str ''foo''),
       data_propertyName = Str ''bar'',
       data_message = '' Use baz instead.''\<rparr>]"
  by (simp add: visit_def create_def build_def add_option_def no_restrictions_def
      checkPropertyAccess_def matchedObjectProperty_def globalMatchedProperty_def
      fun_js_def Let_def)

text \<open>
  C9. With no options, \<open>create\<close> returns no handler at all, and a run over any program
  reports nothing.
\<close>

theorem no_options_no_handlers:
  "create [] = Map.empty \<and> lint [] program = []"
  by (simp add: create_def lint_def visit_def)

text \<open>
  C10. When several options have the same key (the same \<^verbatim>\<open>object\<close> and the same
  \<^verbatim>\<open>property\<close>, present or absent alike), the last of them overwrites the others: whatever
  options come before it, the maps hold its message under the key. So its message, and
  never the message of an earlier option, is carried by every \<^verbatim>\<open>restrictedObjectProperty\<close>
  report of its object and property, when it has both; by every \<^verbatim>\<open>restrictedProperty\<close>
  report of its property, when it has no object; and, when it has no property, by every
  \<^verbatim>\<open>restrictedObjectProperty\<close> report of its object whose property name has no entry in
  the nested map of the object, which are the reports of the tier of whole objects. That
  tier, when it fires at an access to the object, makes its one report with this message.
\<close>

theorem later_entry_overwrites:
  assumes "\<forall>x\<in>set post. \<not> (object x = object e \<and> property x = property e)"
  shows "stored (build (pre @ e # post)) e = Some (Entry (message e)) \<and>
         (\<forall>r\<in>set (checkPropertyAccess (build (pre @ e # post)) n obj names).
            (object e \<noteq> None \<and> property e \<noteq> None \<and>
             messageId r = restrictedObjectProperty \<and>
             data_objectName r = Some (field (object e)) \<and>
             data_propertyName r = field (property e)
               \<longrightarrow> data_message r = suffix_of (message e)) \<and>
            (object e = None \<and>
             messageId r = restrictedProperty \<and>
             data_propertyName r = field (property e)
               \<longrightarrow> data_message r = suffix_of (message e)) \<and>
            (object e \<noteq> None \<and> property e = None \<and>
             messageId r = restrictedObjectProperty \<and>
             data_objectName r = Some (field (object e)) \<and>
             scoped_lookup (build (pre @ e # post)) (field (object e)) (data_propertyName r) = None
               \<longrightarrow> data_message r = suffix_of (message e))) \<and>
         (object e \<noteq> None \<and> property e = None \<and>
          matchedObjectProperty (build (pre @ e # post)) (field (object e)) accessed = None \<and>
          globalMatchedProperty (build (pre @ e # post)) accessed = None
            \<longrightarrow> checkPropertyAccess (build (pre @ e # post)) n (field (object e)) (Some accessed) =
                  [\<lparr>node = n, messageId = restrictedObjectProperty,
                    data_objectName = Some (field (object e)),
                    data_propertyName = first_of accessed,
                    data_message = suffix_of (message e)\<rparr>])"
proof (intro conjI ballI impI)
  let ?R = "build (pre @ e # post)"
  show st: "stored ?R e = Some (Entry (message e))"
    using assms by (rule stored_last)
  {
    assume h: "object e \<noteq> None \<and> property e = None \<and>
               matchedObjectProperty ?R (field (object e)) accessed = None \<and>
               globalMatchedProperty ?R accessed = None"
    then have look: "globallyRestrictedObjects ?R (field (object e)) = Some (Entry (message e))"
      using st by (auto simp add: stored_def)
    from h have s: "matchedObjectProperty ?R (field (object e)) accessed = None"
      and g: "globalMatchedProperty ?R accessed = None"
      by simp_all
    show "checkPropertyAccess ?R n (field (object e)) (Some accessed) =
            [\<lparr>node = n, messageId = restrictedObjectProperty,
              data_objectName = Some (field (object e)),
              data_propertyName = first_of accessed,
              data_message = suffix_of (message e)\<rparr>]"
      unfolding checkPropertyAccess_global_object [OF s g] using look by simp
  }
  fix r
  assume r: "r \<in> set (checkPropertyAccess ?R n obj names)"
  note origin = report_origin [OF r]
  {
    assume h: "object e \<noteq> None \<and> property e \<noteq> None \<and>
               messageId r = restrictedObjectProperty \<and>
               data_objectName r = Some (field (object e)) \<and>
               data_propertyName r = field (property e)"
    then have look: "scoped_lookup ?R (field (object e)) (field (property e)) =
                       Some (Entry (message e))"
      using st by (auto simp add: stored_def)
    from origin h consider
        (scoped) "data_objectName r = Some obj"
          "\<exists>x. scoped_lookup ?R obj (data_propertyName r) = Some x \<and>
               data_message r = suffix_of (entry_message x)"
      | (whole) names' where "data_objectName r = Some obj" "names = Some names'"
          "matchedObjectProperty ?R obj names' = None" "data_propertyName r = first_of names'"
      by auto
    then show "data_message r = suffix_of (message e)"
    proof cases
      case scoped
      with h look show ?thesis by auto
    next
      case whole
      from whole(4) h have "first_of names' = field (property e)" by simp
      moreover from h have "field (property e) \<noteq> Undefined"
        by (simp add: field_Undefined)
      ultimately have "field (property e) \<in> set names'"
        by (cases names') auto
      moreover from whole(1) h have "obj = field (object e)" by simp
      ultimately have "matchedObjectProperty ?R obj names' \<noteq> None"
        using look unfolding matchedObjectProperty_None by auto
      with whole(3) show ?thesis by simp
    qed
  }
  {
    assume h: "object e = None \<and> messageId r = restrictedProperty \<and>
               data_propertyName r = field (property e)"
    then have look: "globallyRestrictedProperties ?R (field (property e)) =
                       Some (Entry (message e))"
      using st by (auto simp add: stored_def)
    from origin h have
      "\<exists>x. globallyRestrictedProperties ?R (data_propertyName r) = Some x \<and>
           data_message r = suffix_of (entry_message x)"
      by auto
    with h look show "data_message r = suffix_of (message e)" by auto
  }
  {
    assume h: "object e \<noteq> None \<and> property e = None \<and>
               messageId r = restrictedObjectProperty \<and>
               data_objectName r = Some (field (object e)) \<and>
               scoped_lookup ?R (field (object e)) (data_propertyName r) = None"
    then have look: "globallyRestrictedObjects ?R (field (object e)) = Some (Entry (message e))"
      using st by (auto simp add: stored_def)
    from origin h consider
        (scoped) "data_objectName r = Some obj"
          "\<exists>x. scoped_lookup ?R obj (data_propertyName r) = Some x"
      | (whole) "data_objectName r = Some obj"
          "\<exists>x. globallyRestrictedObjects ?R obj = Some x \<and>
               data_message r = suffix_of (entry_message x)"
      by auto
    then show "data_message r = suffix_of (message e)"
    proof cases
      case scoped
      from scoped(1) h have "obj = field (object e)" by simp
      with scoped(2) h show ?thesis by auto
    next
      case whole
      from whole(1) h have "obj = field (object e)" by simp
      with whole(2) look show ?thesis by auto
    qed
  }
qed

theorem later_entry_overwrites_witness:
  "checkPropertyAccess
     (build ([\<lparr>object = Some ''foo'', property = Some ''bar'', message = Some ''old''\<rparr>]
             @ \<lparr>object = Some ''foo'', property = Some ''bar'', message = Some ''new''\<rparr>
             # [\<lparr>object = Some ''foo'', property = Some ''baz'', message = None\<rparr>]))
     Other (Str ''foo'') (Some [Str ''bar''])
   = [\<lparr>node = Other, messageId = restrictedObjectProperty,
       data_objectName = Some (Str ''foo''), data_propertyName = Str ''bar'',
       data_message = '' new''\<rparr>] \<and>
   checkPropertyAccess
     (build ([\<lparr>object = Some ''foo'', property = None, message = Some ''old''\<rparr>]
             @ \<lparr>object = Some ''foo'', property = None, message = Some ''new''\<rparr>
             # [\<lparr>object = Some ''foo'', property = Some ''baz'', message = Some ''other''\<rparr>]))
     Other (Str ''foo'') (Some [Str ''bar'', Str ''qux''])
   = [\<lparr>node = Other, messageId = restrictedObjectProperty,
       data_objectName = Some (Str ''foo''), data_propertyName = Str ''bar'',
       data_message = '' new''\<rparr>] \<and>
   checkPropertyAccess
     (build ([\<lparr>object = None, property = Some ''bar'', message = Some ''old''\<rparr>]
             @ \<lparr>object = None, property = Some ''bar'', message = Some ''new''\<rparr>
             # [\<lparr>object = Some ''foo'', property = None, message = Some ''other''\<rparr>]))
     Other (Str ''foo'') (Some [Str ''bar''])
   = [\<lparr>node = Other, messageId = restrictedProperty,
       data_objectName = None, data_propertyName = Str ''bar'',
       data_message = '' new''\<rparr>]"
  using later_entry_overwrites
    [of "[\<lparr>object = Some ''foo'', property = Some ''baz'', message = None\<rparr>]"
        "\<lparr>object = Some ''foo'', property = Some ''bar'', message = Some ''new''\<rparr>"
        "[\<lparr>object = Some ''foo'', property = Some ''bar'', message = Some ''old''\<rparr>]"
        Other "Str ''foo''" "Some [Str ''bar'']" "[Str ''bar'']"]
    later_entry_overwrites
    [of "[\<lparr>object = Some ''foo'', property = Some ''baz'', message = Some ''other''\<rparr>]"
        "\<lparr>object = Some ''foo'', property = None, message = Some ''new''\<rparr>"
        "[\<lparr>object = Some ''foo'', property = None, message = Some ''old''\<rparr>]"
        Other "Str ''foo''" "Some [Str ''bar'', Str ''qux'']" "[Str ''bar'', Str ''qux'']"]
    later_entry_overwrites
    [of "[\<lparr>object = Some ''foo'', property = None, message = Some ''other''\<rparr>]"
        "\<lparr>object = None, property = Some ''bar'', message = Some ''new''\<rparr>"
        "[\<lparr>object = None, property = Some ''bar'', message = Some ''old''\<rparr>]"
        Other "Str ''foo''" "Some [Str ''bar'']" "[Str ''bar'']"]
  by (simp add: build_def add_option_def no_restrictions_def Let_def
      checkPropertyAccess_def matchedObjectProperty_def globalMatchedProperty_def fun_js_def)

end
